theory Spec2Isabelle
  imports Main
begin

section \<open>A registration endpoint over a request-scoped database session\<close>

text \<open>
  The development follows \<^verbatim>\<open>TodoApp/routers/auth.py\<close>: the request schema
  \<^verbatim>\<open>CreateUserRequest\<close>, the session dependency \<^verbatim>\<open>get_db\<close> and the handler
  \<^verbatim>\<open>create_user\<close> behind \<^verbatim>\<open>POST /auth\<close>. Mutation of the session and of the
  database is explicit state passing; a raised exception is a value \<open>Inl e\<close>.
\<close>

subsection \<open>Data\<close>

text \<open>
  Modelled from the spec: the class \<^verbatim>\<open>Users\<close> is declared in \<^verbatim>\<open>models.py\<close>, which is not
  among the sources. Section 3 of the specification lists the fields of a user record;
  they are the seven keyword arguments with which the handler builds one (lines 40-48).
\<close>

record Users =
  email :: string
  username :: string
  first_name :: string
  last_name :: string
  role :: string
  hashed_password :: string
  is_active :: bool

text \<open>
  The request schema, lines 20-26: six fields annotated \<^verbatim>\<open>str\<close>, none with a default.
  Its fields carry the prefix \<open>req_\<close> because four of them share their names with
  the fields of \<open>Users\<close>.
\<close>

record CreateUserRequest =
  req_username :: string
  req_email :: string
  req_first_name :: string
  req_last_name :: string
  req_password :: string
  req_role :: string

text \<open>A value of a decoded JSON request body, and the body as a JSON object.\<close>

datatype json = JString string | JNumber int | JBool bool | JNull

type_synonym body = "string \<rightharpoonup> json"

text \<open>
  The exceptions that can leave the handler: whatever the hashing library raises, and
  the integrity error of a commit. Neither is caught anywhere in the source.
\<close>

datatype exn = HashingError | IntegrityError

text \<open>
  What the endpoint hands back when no exception escapes: a status code and the value
  the handler returned (\<open>None\<close> is Python's \<^verbatim>\<open>None\<close>). The status of a created user
  is the constant named in the decorator of line 37; the status of a rejected body is
  the framework's default for a validation error (section 6 of the specification).
\<close>

record response =
  status_code :: nat
  content :: "Users option"

definition HTTP_201_CREATED :: nat where
  "HTTP_201_CREATED = 201"

definition HTTP_422_UNPROCESSABLE_ENTITY :: nat where
  "HTTP_422_UNPROCESSABLE_ENTITY = 422"

definition client_error :: "nat \<Rightarrow> bool" where
  "client_error c = (400 \<le> c \<and> c < 500)"

subsection \<open>The database session\<close>

text \<open>
  The observable actions, in the order they happen. The log is ghost state: no
  operation reads it.
\<close>

datatype event = Opened | Hashed string | Added Users | Committed | CommitFailed | Closed

text \<open>
  The state a request runs in: the committed rows of the users table, the objects added
  to the request's session and not yet written, and the log. A request owns one
  session (section 5 of the specification), so one pending list is enough.
\<close>

record db =
  users_table :: "Users list"
  pending :: "Users list"
  trace :: "event list"

text \<open>
  Modelled from the spec: the table declaration (\<^verbatim>\<open>models.py\<close>) and the session factory
  (\<^verbatim>\<open>database.py\<close>) are not among the sources. Section 3 makes the username a unique
  identifier and section 7 names a uniqueness violation on username or email as the
  persistence failure; a row violates the constraint when a stored row has its
  username or its email.
\<close>

fun violates :: "Users list \<Rightarrow> Users \<Rightarrow> bool" where
  "violates [] u = False"
| "violates (r # rs) u = (username r = username u \<or> email r = email u \<or> violates rs u)"

text \<open>The flush of a commit: the pending rows are inserted one after the other.\<close>

fun insert_all :: "Users list \<Rightarrow> Users list \<Rightarrow> Users list option" where
  "insert_all tbl [] = Some tbl"
| "insert_all tbl (u # us) = (if violates tbl u then None else insert_all (tbl @ [u]) us)"

text \<open>
  Modelled from the spec: the session factory \<^verbatim>\<open>SessionLocal\<close> is built in
  \<^verbatim>\<open>database.py\<close>, which is not among the sources. A call opens the one session of
  the request, with nothing pending (section 4.1).
\<close>

definition SessionLocal :: "db \<Rightarrow> db" where
  "SessionLocal s = s\<lparr>pending := [], trace := trace s @ [Opened]\<rparr>"

text \<open>
  The three methods of the session that the source calls. \<^verbatim>\<open>db.add\<close> registers the
  object and writes nothing; \<^verbatim>\<open>db.commit\<close> writes the pending rows in one transaction,
  or raises and writes none of them; \<^verbatim>\<open>db.close\<close> drops what is pending and writes
  nothing (section 4.1 of the specification: release on exit, uncommitted work rolled
  back).
\<close>

definition add :: "Users \<Rightarrow> db \<Rightarrow> db" where
  "add u s = s\<lparr>pending := pending s @ [u], trace := trace s @ [Added u]\<rparr>"

definition commit :: "db \<Rightarrow> (exn + unit) \<times> db" where
  "commit s =
     (case insert_all (users_table s) (pending s) of
        None \<Rightarrow> (Inl IntegrityError, s\<lparr>trace := trace s @ [CommitFailed]\<rparr>)
      | Some tbl \<Rightarrow>
          (Inr (), s\<lparr>users_table := tbl, pending := [], trace := trace s @ [Committed]\<rparr>))"

definition close :: "db \<Rightarrow> db" where
  "close s = s\<lparr>pending := [], trace := trace s @ [Closed]\<rparr>"

text \<open>
  \<^verbatim>\<open>get_db\<close>, lines 28-33: a generator that opens a session, yields it, and closes it in
  a \<^verbatim>\<open>finally\<close> block. Everything that runs while the generator is suspended at the
  \<^verbatim>\<open>yield\<close> is the argument \<open>during\<close>; it hands back its outcome (an exception is the
  value \<open>Inl e\<close>) and the state it left. The \<^verbatim>\<open>finally\<close> block runs whatever the outcome,
  and the generator has no \<^verbatim>\<open>except\<close> clause, so the outcome passes through unchanged.
\<close>

definition get_db :: "(db \<Rightarrow> 'a \<times> db) \<Rightarrow> db \<Rightarrow> 'a \<times> db" where
  "get_db during s =
     (let db = SessionLocal s;
          (outcome, db') = during db
      in (outcome, close db'))"

subsection \<open>The hashing policy\<close>

text \<open>
  Line 18 configures the password context with the single scheme \<^verbatim>\<open>bcrypt\<close>, and line 46
  calls its \<^verbatim>\<open>hash\<close>. The handler below takes the call as a parameter
  \<open>hash :: string \<Rightarrow> string option\<close>, the result of this request's one call as a function
  of the plaintext, \<open>None\<close> when the library raises.

  \<open>bcrypt_hash\<close> is the layout of what the scheme returns, a string in modular crypt
  format: the identifier \<^verbatim>\<open>$2b$\<close>, the cost \<^verbatim>\<open>12$\<close>, the salt and the digest. The
  library draws the salt at random in each call and computes the digest from the salt
  and the plaintext; here the salt of the call and the key derivation are parameters,
  and only the layout is fixed.
\<close>

definition bcrypt_hash :: "(string \<Rightarrow> string \<Rightarrow> string) \<Rightarrow> string \<Rightarrow> string \<Rightarrow> string option" where
  "bcrypt_hash digest salt secret = Some (''$2b$12$'' @ salt @ digest salt secret)"

subsection \<open>The handler and the endpoint\<close>

text \<open>The constructor call of lines 40-48, with the hash already computed.\<close>

definition create_user_model :: "CreateUserRequest \<Rightarrow> string \<Rightarrow> Users" where
  "create_user_model create_user_request h =
     \<lparr>email = req_email create_user_request,
      username = req_username create_user_request,
      first_name = req_first_name create_user_request,
      last_name = req_last_name create_user_request,
      role = req_role create_user_request,
      hashed_password = h,
      is_active = True\<rparr>"

text \<open>
  \<^verbatim>\<open>create_user\<close>, lines 38-52. The hash is computed while the arguments of the
  constructor are evaluated, so a failure there leaves before \<^verbatim>\<open>db.add\<close>. The return
  of the record is commented out (line 50): the function falls off its end and
  returns \<^verbatim>\<open>None\<close>.
\<close>

definition create_user ::
  "(string \<Rightarrow> string option) \<Rightarrow> CreateUserRequest \<Rightarrow> db \<Rightarrow> (exn + Users option) \<times> db" where
  "create_user hash create_user_request db =
     (let db1 = db\<lparr>trace := trace db @ [Hashed (req_password create_user_request)]\<rparr>
      in case hash (req_password create_user_request) of
           None \<Rightarrow> (Inl HashingError, db1)
         | Some h \<Rightarrow>
             (let db2 = add (create_user_model create_user_request h) db1
              in case commit db2 of
                   (Inl e, db3) \<Rightarrow> (Inl e, db3)
                 | (Inr _, db3) \<Rightarrow> (Inr None, db3)))"

text \<open>
  Validation of the body against the schema, done by the framework before the handler
  is called: each of the six fields has to be present and a string. Other keys of the
  body are ignored.
\<close>

definition str_field :: "body \<Rightarrow> string \<Rightarrow> string option" where
  "str_field b k = (case b k of Some (JString v) \<Rightarrow> Some v | _ \<Rightarrow> None)"

definition validate :: "body \<Rightarrow> CreateUserRequest option" where
  "validate b =
     (case (str_field b ''username'', str_field b ''email'', str_field b ''first_name'',
            str_field b ''last_name'', str_field b ''password'', str_field b ''role'') of
        (Some u, Some e, Some f, Some l, Some p, Some r) \<Rightarrow>
          Some \<lparr>req_username = u, req_email = e, req_first_name = f,
                req_last_name = l, req_password = p, req_role = r\<rparr>
      | _ \<Rightarrow> None)"

text \<open>
  The route of line 37. The framework resolves the dependency \<^verbatim>\<open>get_db\<close>, validates the
  body, and calls the handler only when the body is valid; a normal return of the
  handler is answered with the status of the decorator, an invalid body with the
  framework's validation error, and an exception of the handler is not caught.
\<close>

definition post_auth :: "(string \<Rightarrow> string option) \<Rightarrow> body \<Rightarrow> db \<Rightarrow> (exn + response) \<times> db" where
  "post_auth hash b s =
     get_db (\<lambda>db.
       case validate b of
         None \<Rightarrow> (Inr \<lparr>status_code = HTTP_422_UNPROCESSABLE_ENTITY, content = None\<rparr>, db)
       | Some create_user_request \<Rightarrow>
           (case create_user hash create_user_request db of
              (Inl e, db') \<Rightarrow> (Inl e, db')
            | (Inr v, db') \<Rightarrow> (Inr \<lparr>status_code = HTTP_201_CREATED, content = v\<rparr>, db'))) s"

text \<open>The body with exactly the six fields, all strings.\<close>

definition payload :: "string \<Rightarrow> string \<Rightarrow> string \<Rightarrow> string \<Rightarrow> string \<Rightarrow> string \<Rightarrow> body" where
  "payload u e f l p r =
     [''username'' \<mapsto> JString u, ''email'' \<mapsto> JString e, ''first_name'' \<mapsto> JString f,
      ''last_name'' \<mapsto> JString l, ''password'' \<mapsto> JString p, ''role'' \<mapsto> JString r]"

text \<open>
  \<^verbatim>\<open>main.py\<close>, line 10: the tables are created when the database file does not exist
  yet, and an existing database is left as it is.
\<close>

definition create_all :: "db option \<Rightarrow> db" where
  "create_all existing =
     (case existing of
        None \<Rightarrow> \<lparr>users_table = [], pending = [], trace = []\<rparr>
      | Some d \<Rightarrow> d)"

section \<open>The four ways through the endpoint\<close>

lemmas endpoint_defs =
  post_auth_def get_db_def SessionLocal_def close_def create_user_def add_def commit_def

lemma create_user_model_fields [simp]:
  "email (create_user_model r h) = req_email r"
  "username (create_user_model r h) = req_username r"
  "first_name (create_user_model r h) = req_first_name r"
  "last_name (create_user_model r h) = req_last_name r"
  "role (create_user_model r h) = req_role r"
  "hashed_password (create_user_model r h) = h"
  "is_active (create_user_model r h) = True"
  by (simp_all add: create_user_model_def)

lemma violates_iff:
  "violates tbl u \<longleftrightarrow> (\<exists>r \<in> set tbl. username r = username u \<or> email r = email u)"
  by (induction tbl) auto

lemma violates_append:
  "violates (tbl @ [r]) u \<longleftrightarrow> violates tbl u \<or> username r = username u \<or> email r = email u"
  by (induction tbl) auto

lemma violates_username:
  "\<not> violates tbl u \<Longrightarrow> filter (\<lambda>row. username row = username u) tbl = []"
  by (induction tbl) auto

lemma validate_payload:
  "validate (payload u e f l p r) =
     Some \<lparr>req_username = u, req_email = e, req_first_name = f,
           req_last_name = l, req_password = p, req_role = r\<rparr>"
  by (simp add: validate_def payload_def str_field_def)

lemma validate_missing:
  assumes "k \<in> {''username'', ''email'', ''first_name'', ''last_name'', ''password'', ''role''}"
    and "b k = None"
  shows "validate b = None"
proof -
  from assms(2) have "str_field b k = None"
    by (simp add: str_field_def)
  with assms(1) show ?thesis
    by (auto simp: validate_def split: option.splits)
qed

text \<open>The body is invalid: the handler is not called.\<close>

lemma post_auth_invalid:
  assumes "validate b = None"
  shows "post_auth hash b s =
           (Inr \<lparr>status_code = HTTP_422_UNPROCESSABLE_ENTITY, content = None\<rparr>,
            s\<lparr>pending := [], trace := trace s @ [Opened, Closed]\<rparr>)"
  using assms by (simp add: post_auth_def get_db_def SessionLocal_def close_def)

text \<open>The hashing raises: the handler leaves before \<^verbatim>\<open>db.add\<close>.\<close>

lemma post_auth_hash_raises:
  assumes "validate b = Some r" and "hash (req_password r) = None"
  shows "post_auth hash b s =
           (Inl HashingError,
            s\<lparr>pending := [], trace := trace s @ [Opened, Hashed (req_password r), Closed]\<rparr>)"
  using assms by (simp add: post_auth_def get_db_def SessionLocal_def close_def create_user_def)

text \<open>The commit raises: the row was added to the session and is dropped with it.\<close>

lemma post_auth_conflict:
  assumes "validate b = Some r" and "hash (req_password r) = Some h"
    and "violates (users_table s) (create_user_model r h)"
  shows "post_auth hash b s =
           (Inl IntegrityError,
            s\<lparr>pending := [],
              trace := trace s @ [Opened, Hashed (req_password r),
                                  Added (create_user_model r h), CommitFailed, Closed]\<rparr>)"
  using assms by (simp add: endpoint_defs)

text \<open>The commit goes through: one row more.\<close>

lemma post_auth_created:
  assumes "validate b = Some r" and "hash (req_password r) = Some h"
    and "\<not> violates (users_table s) (create_user_model r h)"
  shows "post_auth hash b s =
           (Inr \<lparr>status_code = HTTP_201_CREATED, content = None\<rparr>,
            s\<lparr>users_table := users_table s @ [create_user_model r h], pending := [],
              trace := trace s @ [Opened, Hashed (req_password r),
                                  Added (create_user_model r h), Committed, Closed]\<rparr>)"
  using assms by (simp add: endpoint_defs)

lemma post_auth_cases:
  obtains (invalid) "validate b = None"
  | (hash_raises) r where "validate b = Some r" "hash (req_password r) = None"
  | (conflict) r h where "validate b = Some r" "hash (req_password r) = Some h"
      "violates (users_table s) (create_user_model r h)"
  | (created) r h where "validate b = Some r" "hash (req_password r) = Some h"
      "\<not> violates (users_table s) (create_user_model r h)"
  by (cases "validate b"; cases "hash (req_password (the (validate b)))") auto

section \<open>The stored secret\<close>

text \<open>
  Whatever the policy, the row that reaches the table carries in \<open>hashed_password\<close>
  exactly what the policy returned for the submitted password.
\<close>

lemma stored_secret_is_policy_output:
  assumes "validate b = Some r" and "post_auth hash b s = (Inr resp, s')"
  shows "\<exists>h. hash (req_password r) = Some h \<and>
             users_table s' = users_table s @ [create_user_model r h] \<and>
             hashed_password (last (users_table s')) = h"
proof (cases rule: post_auth_cases [where b = b and hash = hash and s = s])
  case invalid
  with assms show ?thesis by simp
next
  case (hash_raises r')
  with assms show ?thesis by (simp add: post_auth_hash_raises)
next
  case (conflict r' h)
  with assms show ?thesis by (simp add: post_auth_conflict)
next
  case (created r' h)
  with assms show ?thesis by (auto simp: post_auth_created)
qed

text \<open>
  The layout of the bcrypt scheme alone separates the stored value from every plaintext
  that does not itself start with the scheme's identifier and cost. For a plaintext
  that does, equality is a fixed point of the digest, about which the layout says
  nothing.
\<close>

lemma bcrypt_hash_prefix:
  "bcrypt_hash digest salt secret = Some h \<Longrightarrow> take 7 h = ''$2b$12$''"
  by (auto simp: bcrypt_hash_def)

lemma bcrypt_hash_not_plaintext:
  assumes "bcrypt_hash digest salt secret = Some h" and "take 7 secret \<noteq> ''$2b$12$''"
  shows "h \<noteq> secret"
  using assms bcrypt_hash_prefix by metis

text \<open>
  Two calls on the same plaintext return the same string exactly when they drew the
  same salt (salts have one fixed length).
\<close>

lemma bcrypt_hash_salts:
  assumes "length s1 = length s2"
  shows "bcrypt_hash digest s1 p = bcrypt_hash digest s2 p \<longleftrightarrow> s1 = s2"
  using assms by (auto simp: bcrypt_hash_def)

section \<open>The session is released once\<close>

text \<open>
  Claim C2. Whatever runs while \<open>get_db\<close> is suspended and however it ends, the release
  is the last thing that happens. For the endpoint, on each of its exits (the body is
  rejected and the handler does nothing, the handler raises, the handler returns), the
  request adds to the log one opening, then events that are neither an opening nor a
  release, then one release.
\<close>

theorem session_released_exactly_once:
  "trace (snd (get_db during s)) = trace (snd (during (SessionLocal s))) @ [Closed] \<and>
   (\<exists>evs. trace (snd (post_auth hash b s)) = trace s @ [Opened] @ evs @ [Closed] \<and>
          Opened \<notin> set evs \<and> Closed \<notin> set evs)"
proof
  show "trace (snd (get_db during s)) = trace (snd (during (SessionLocal s))) @ [Closed]"
    by (simp add: get_db_def close_def split: prod.split)
  show "\<exists>evs. trace (snd (post_auth hash b s)) = trace s @ [Opened] @ evs @ [Closed] \<and>
          Opened \<notin> set evs \<and> Closed \<notin> set evs"
  proof (cases rule: post_auth_cases [where b = b and hash = hash and s = s])
    case invalid
    then show ?thesis by (simp add: post_auth_invalid)
  next
    case (hash_raises r)
    then show ?thesis by (simp add: post_auth_hash_raises)
  next
    case (conflict r h)
    then show ?thesis by (simp add: post_auth_conflict)
  next
    case (created r h)
    then show ?thesis by (simp add: post_auth_created)
  qed
qed

theorem session_released_exactly_once_witness:
  "trace (snd (get_db (\<lambda>db. (Inl IntegrityError, add 
        \<lparr>email = ''e'', username = ''u'', first_name = ''f'',
          last_name = ''l'', role = ''r'', hashed_password = ''h'', is_active = True\<rparr> db))
                 (create_all None))) =
     trace (add 
        \<lparr>email = ''e'', username = ''u'', first_name = ''f'',
          last_name = ''l'', role = ''r'', hashed_password = ''h'', is_active = True\<rparr> (SessionLocal (create_all None))) @ [Closed] \<and>
   (\<exists>evs. trace (snd (post_auth (\<lambda>p. None) (payload ''u'' ''e'' ''f'' ''l'' ''p'' ''r'')
                        (create_all None))) =
            trace (create_all None) @ [Opened] @ evs @ [Closed] \<and>
          Opened \<notin> set evs \<and> Closed \<notin> set evs)"
  using session_released_exactly_once
    [of "\<lambda>db. (Inl IntegrityError, add 
        \<lparr>email = ''e'', username = ''u'', first_name = ''f'',
          last_name = ''l'', role = ''r'', hashed_password = ''h'', is_active = True\<rparr> db)" "create_all None"
        "\<lambda>p. None"
        "payload ''u'' ''e'' ''f'' ''l'' ''p'' ''r''"]
  by simp

section \<open>The example registration\<close>

text \<open>
  Claim C3. For the body with username alice, email a@x.com, first name A, last name L,
  password secret123 and role user, hashed by the bcrypt scheme: when the call ends
  without an exception, the status is 201 and the table is the table of before with
  one row appended; that row has the submitted username, email, first name, last name
  and role, and its hashed secret is not the string secret123.
\<close>

theorem register_alice:
  assumes "post_auth (bcrypt_hash digest salt)
             (payload ''alice'' ''a@x.com'' ''A'' ''L'' ''secret123'' ''user'') s = (Inr resp, s')"
  shows "status_code resp = 201 \<and>
         (\<exists>u. users_table s' = users_table s @ [u] \<and> username u = ''alice'' \<and>
              email u = ''a@x.com'' \<and> first_name u = ''A'' \<and> last_name u = ''L'' \<and>
              role u = ''user'' \<and> hashed_password u \<noteq> ''secret123'')"
proof -
  let ?b = "payload ''alice'' ''a@x.com'' ''A'' ''L'' ''secret123'' ''user''"
  let ?r = "\<lparr>req_username = ''alice'', req_email = ''a@x.com'', req_first_name = ''A'',
             req_last_name = ''L'', req_password = ''secret123'', req_role = ''user''\<rparr>"
  let ?h = "''$2b$12$'' @ salt @ digest salt ''secret123''"
  have v: "validate ?b = Some ?r"
    by (rule validate_payload)
  have h: "bcrypt_hash digest salt (req_password ?r) = Some ?h"
    by (simp add: bcrypt_hash_def)
  show ?thesis
  proof (cases "violates (users_table s) (create_user_model ?r ?h)")
    case True
    have "post_auth (bcrypt_hash digest salt) ?b s =
          (Inl IntegrityError,
            s\<lparr>pending := [],
              trace := trace s @ [Opened, Hashed (req_password ?r),
                                  Added (create_user_model ?r ?h), CommitFailed, Closed]\<rparr>)"
      by (rule post_auth_conflict) (fact v h True)+
    with assms show ?thesis by simp
  next
    case False
    have "post_auth (bcrypt_hash digest salt) ?b s =
          (Inr \<lparr>status_code = HTTP_201_CREATED, content = None\<rparr>,
            s\<lparr>users_table := users_table s @ [create_user_model ?r ?h], pending := [],
              trace := trace s @ [Opened, Hashed (req_password ?r),
                                  Added (create_user_model ?r ?h), Committed, Closed]\<rparr>)"
      by (rule post_auth_created) (fact v h False)+
    with assms
    have "resp = \<lparr>status_code = HTTP_201_CREATED, content = None\<rparr>"
      and "s' = s\<lparr>users_table := users_table s @ [create_user_model ?r ?h], pending := [],
              trace := trace s @ [Opened, Hashed (req_password ?r),
                                  Added (create_user_model ?r ?h), Committed, Closed]\<rparr>"
      by simp_all
    then show ?thesis by (simp add: HTTP_201_CREATED_def)
  qed
qed

theorem register_alice_witness:
  "\<exists>resp s'.
     post_auth (bcrypt_hash (\<lambda>salt secret. ''0123456789012345678901234567890'')
                  ''abcdefghijklmnopqrstuv'')
       (payload ''alice'' ''a@x.com'' ''A'' ''L'' ''secret123'' ''user'') (create_all None)
       = (Inr resp, s') \<and>
     status_code resp = 201 \<and>
     (\<exists>u. users_table s' = users_table (create_all None) @ [u] \<and> username u = ''alice'' \<and>
          email u = ''a@x.com'' \<and> first_name u = ''A'' \<and> last_name u = ''L'' \<and>
          role u = ''user'' \<and> hashed_password u \<noteq> ''secret123'')"
proof -
  obtain resp s' where e:
    "post_auth (bcrypt_hash (\<lambda>salt secret. ''0123456789012345678901234567890'')
                  ''abcdefghijklmnopqrstuv'')
       (payload ''alice'' ''a@x.com'' ''A'' ''L'' ''secret123'' ''user'') (create_all None)
       = (Inr resp, s')"
    by (simp add: endpoint_defs validate_payload bcrypt_hash_def create_all_def)
  from register_alice [OF e] e show ?thesis by blast
qed

section \<open>The active flag\<close>

text \<open>
  Claim C4. Every record that a request hands to the session, and every row that a
  request brings into the table, has the active flag set.
\<close>

theorem created_record_is_active:
  assumes "post_auth hash b s = (out, s')"
    and "(Added u \<in> set (trace s') \<and> Added u \<notin> set (trace s)) \<or>
         (u \<in> set (users_table s') \<and> u \<notin> set (users_table s))"
  shows "is_active u"
proof (cases rule: post_auth_cases [where b = b and hash = hash and s = s])
  case invalid
  with assms show ?thesis by (auto simp: post_auth_invalid)
next
  case (hash_raises r)
  with assms show ?thesis by (auto simp: post_auth_hash_raises)
next
  case (conflict r h)
  with assms show ?thesis by (auto simp: post_auth_conflict)
next
  case (created r h)
  with assms show ?thesis by (auto simp: post_auth_created)
qed

theorem created_record_is_active_witness:
  "\<exists>out s' u.
     post_auth (\<lambda>p. Some (''$2b$12$'' @ p)) (payload ''bob'' ''b@x.com'' ''B'' ''O'' ''pw'' ''admin'')
       (create_all None) = (out, s') \<and>
     u \<in> set (users_table s') \<and> u \<notin> set (users_table (create_all None)) \<and>
     username u = ''bob'' \<and> is_active u"
proof -
  let ?u = "\<lparr>email = ''b@x.com'', username = ''bob'', first_name = ''B'', last_name = ''O'',
             role = ''admin'', hashed_password = ''$2b$12$pw'', is_active = True\<rparr>"
  obtain out s' where e:
    "post_auth (\<lambda>p. Some (''$2b$12$'' @ p)) (payload ''bob'' ''b@x.com'' ''B'' ''O'' ''pw'' ''admin'')
       (create_all None) = (out, s')"
    and t: "users_table s' = [?u]"
    by (simp add: endpoint_defs validate_payload create_all_def create_user_model_def)
  have a: "(Added ?u \<in> set (trace s') \<and> Added ?u \<notin> set (trace (create_all None))) \<or>
           (?u \<in> set (users_table s') \<and> ?u \<notin> set (users_table (create_all None)))"
    by (simp add: t create_all_def)
  from created_record_is_active [OF e a] e t show ?thesis
    by (auto simp: create_all_def)
qed

section \<open>A second registration under the same username\<close>

text \<open>
  Claim C6. When a registration under a username has gone through and a second
  request comes with the same username (its other fields are free, and its hashing
  returns), the commit of the second raises the integrity error; the handler does not
  catch it and neither does the endpoint; the table is the one the first registration
  left, and it holds one row with that username.
\<close>

theorem duplicate_username_rejected:
  assumes first: "post_auth hash1 (payload u e1 f1 l1 p1 r1) s = (Inr resp, s1)"
    and second: "hash2 p2 = Some h2"
  shows "fst (create_user hash2 \<lparr>req_username = u, req_email = e2, req_first_name = f2,
                 req_last_name = l2, req_password = p2, req_role = r2\<rparr> (SessionLocal s1))
           = Inl IntegrityError \<and>
         fst (post_auth hash2 (payload u e2 f2 l2 p2 r2) s1) = Inl IntegrityError \<and>
         users_table (snd (post_auth hash2 (payload u e2 f2 l2 p2 r2) s1)) = users_table s1 \<and>
         length (filter (\<lambda>row. username row = u)
                   (users_table (snd (post_auth hash2 (payload u e2 f2 l2 p2 r2) s1)))) = 1"
proof -
  let ?q1 = "\<lparr>req_username = u, req_email = e1, req_first_name = f1,
              req_last_name = l1, req_password = p1, req_role = r1\<rparr>"
  let ?q2 = "\<lparr>req_username = u, req_email = e2, req_first_name = f2,
              req_last_name = l2, req_password = p2, req_role = r2\<rparr>"
  have v1: "validate (payload u e1 f1 l1 p1 r1) = Some ?q1"
    and v2: "validate (payload u e2 f2 l2 p2 r2) = Some ?q2"
    by (rule validate_payload)+
  from first obtain h1 where h1: "hash1 (req_password ?q1) = Some h1"
    by (cases "hash1 (req_password ?q1)") (simp_all add: post_auth_hash_raises [OF v1])
  have free: "\<not> violates (users_table s) (create_user_model ?q1 h1)"
  proof
    assume "violates (users_table s) (create_user_model ?q1 h1)"
    from post_auth_conflict [where hash = hash1, OF v1 h1 this] first show False by simp
  qed
  from post_auth_created [where hash = hash1, OF v1 h1 free] first
  have s1: "users_table s1 = users_table s @ [create_user_model ?q1 h1]"
    by auto
  have h2: "hash2 (req_password ?q2) = Some h2"
    using second by simp
  have taken: "violates (users_table s1) (create_user_model ?q2 h2)"
    by (simp add: s1 violates_append)
  have once: "length (filter (\<lambda>row. username row = u) (users_table s1)) = 1"
    using violates_username [OF free] by (simp add: s1)
  have "fst (create_user hash2 ?q2 (SessionLocal s1)) = Inl IntegrityError"
    using h2 taken
    by (simp add: create_user_def SessionLocal_def add_def commit_def)
  with post_auth_conflict [where hash = hash2, OF v2 h2 taken] once show ?thesis
    by simp
qed

theorem duplicate_username_rejected_witness:
  "\<exists>resp s1.
     post_auth (\<lambda>p. Some (''$2b$12$'' @ p)) (payload ''alice'' ''a@x.com'' ''A'' ''L'' ''secret123'' ''user'')
       (create_all None) = (Inr resp, s1) \<and>
     fst (post_auth (\<lambda>p. Some (''$2b$12$'' @ p))
            (payload ''alice'' ''other@x.com'' ''B'' ''M'' ''hunter2'' ''admin'') s1)
       = Inl IntegrityError \<and>
     users_table (snd (post_auth (\<lambda>p. Some (''$2b$12$'' @ p))
            (payload ''alice'' ''other@x.com'' ''B'' ''M'' ''hunter2'' ''admin'') s1))
       = users_table s1 \<and>
     length (filter (\<lambda>row. username row = ''alice'')
       (users_table (snd (post_auth (\<lambda>p. Some (''$2b$12$'' @ p))
            (payload ''alice'' ''other@x.com'' ''B'' ''M'' ''hunter2'' ''admin'') s1)))) = 1"
proof -
  obtain resp s1 where e:
    "post_auth (\<lambda>p. Some (''$2b$12$'' @ p)) (payload ''alice'' ''a@x.com'' ''A'' ''L'' ''secret123'' ''user'')
       (create_all None) = (Inr resp, s1)"
    by (simp add: endpoint_defs validate_payload create_all_def)
  have h: "(\<lambda>p. Some (''$2b$12$'' @ p)) ''hunter2'' = Some ''$2b$12$hunter2''"
    by simp
  from duplicate_username_rejected
         [where ?hash1.0 = "\<lambda>p. Some (''$2b$12$'' @ p)" and ?hash2.0 = "\<lambda>p. Some (''$2b$12$'' @ p)"
            and ?e2.0 = "''other@x.com''" and ?f2.0 = "''B''" and ?l2.0 = "''M''"
            and ?r2.0 = "''admin''", OF e h] e
  show ?thesis by blast
qed

section \<open>A body with a field missing\<close>

text \<open>
  Claim C7. When one of the six fields (the password, say) is absent from the body, the
  endpoint answers with a client error. The session is opened and released and nothing
  else happens: the log gains no hashing, no record handed to the session and no
  commit, and the table is unchanged.
\<close>

theorem missing_field_rejected:
  assumes "k \<in> {''username'', ''email'', ''first_name'', ''last_name'', ''password'', ''role''}"
    and "b k = None"
  shows "\<exists>resp. fst (post_auth hash b s) = Inr resp \<and> client_error (status_code resp) \<and>
           trace (snd (post_auth hash b s)) = trace s @ [Opened, Closed] \<and>
           users_table (snd (post_auth hash b s)) = users_table s"
proof -
  have "validate b = None"
    using assms by (rule validate_missing [where k = k and b = b])
  then show ?thesis
    by (simp add: post_auth_invalid client_error_def HTTP_422_UNPROCESSABLE_ENTITY_def)
qed

theorem missing_field_rejected_witness:
  "\<exists>resp. fst (post_auth (\<lambda>p. Some (''$2b$12$'' @ p))
                ((payload ''alice'' ''a@x.com'' ''A'' ''L'' ''secret123'' ''user'')(''password'' := None))
                (create_all None)) = Inr resp \<and>
          client_error (status_code resp) \<and>
          trace (snd (post_auth (\<lambda>p. Some (''$2b$12$'' @ p))
                ((payload ''alice'' ''a@x.com'' ''A'' ''L'' ''secret123'' ''user'')(''password'' := None))
                (create_all None))) = trace (create_all None) @ [Opened, Closed] \<and>
          users_table (snd (post_auth (\<lambda>p. Some (''$2b$12$'' @ p))
                ((payload ''alice'' ''a@x.com'' ''A'' ''L'' ''secret123'' ''user'')(''password'' := None))
                (create_all None))) = users_table (create_all None)"
proof -
  have k: "''password'' \<in>
      {''username'', ''email'', ''first_name'', ''last_name'', ''password'', ''role''}"
    by simp
  have m: "((payload ''alice'' ''a@x.com'' ''A'' ''L'' ''secret123'' ''user'')(''password'' := None))
             ''password'' = None"
    by simp
  from missing_field_rejected
         [where k = "''password''" and hash = "\<lambda>p. Some (''$2b$12$'' @ p)" and s = "create_all None"
            and b = "(payload ''alice'' ''a@x.com'' ''A'' ''L'' ''secret123'' ''user'')(''password'' := None)",
          OF k m]
  show ?thesis .
qed

section \<open>What a successful call returns\<close>

text \<open>
  Claim C8. When the handler returns, it returns \<^verbatim>\<open>None\<close>; and when a request with a
  valid body ends without an exception, the answer carries the status 201 and no value.
\<close>

theorem handler_returns_nothing:
  "(fst (create_user hash r s) = Inr v \<longrightarrow> v = None) \<and>
   (validate b = Some r \<longrightarrow> fst (post_auth hash b s) = Inr resp \<longrightarrow>
      status_code resp = HTTP_201_CREATED \<and> HTTP_201_CREATED = 201 \<and> content resp = None)"
proof (intro conjI impI)
  assume "fst (create_user hash r s) = Inr v"
  then show "v = None"
    by (auto simp: create_user_def Let_def split: option.splits prod.splits sum.splits)
next
  show "HTTP_201_CREATED = 201"
    by (simp add: HTTP_201_CREATED_def)
next
  assume v: "validate b = Some r" and ok: "fst (post_auth hash b s) = Inr resp"
  have "resp = \<lparr>status_code = HTTP_201_CREATED, content = None\<rparr>"
  proof (cases rule: post_auth_cases [where b = b and hash = hash and s = s])
    case invalid
    with v show ?thesis by simp
  next
    case (hash_raises r')
    with ok show ?thesis by (simp add: post_auth_hash_raises)
  next
    case (conflict r' h)
    with ok show ?thesis by (simp add: post_auth_conflict)
  next
    case (created r' h)
    with ok show ?thesis by (simp add: post_auth_created)
  qed
  then show "status_code resp = HTTP_201_CREATED" and "content resp = None"
    by simp_all
qed

theorem handler_returns_nothing_witness:
  "fst (create_user (\<lambda>p. Some (''$2b$12$'' @ p))
          \<lparr>req_username = ''alice'', req_email = ''a@x.com'', req_first_name = ''A'',
            req_last_name = ''L'', req_password = ''secret123'', req_role = ''user''\<rparr>
          (create_all None)) = Inr None \<and>
   validate (payload ''alice'' ''a@x.com'' ''A'' ''L'' ''secret123'' ''user'') =
     Some \<lparr>req_username = ''alice'', req_email = ''a@x.com'', req_first_name = ''A'',
            req_last_name = ''L'', req_password = ''secret123'', req_role = ''user''\<rparr> \<and>
   fst (post_auth (\<lambda>p. Some (''$2b$12$'' @ p))
          (payload ''alice'' ''a@x.com'' ''A'' ''L'' ''secret123'' ''user'') (create_all None)) =
     Inr \<lparr>status_code = 201, content = None\<rparr>"
proof -
  let ?hash = "\<lambda>p. Some (''$2b$12$'' @ p)"
  let ?b = "payload ''alice'' ''a@x.com'' ''A'' ''L'' ''secret123'' ''user''"
  let ?r = "\<lparr>req_username = ''alice'', req_email = ''a@x.com'', req_first_name = ''A'',
             req_last_name = ''L'', req_password = ''secret123'', req_role = ''user''\<rparr>"
  have v: "validate ?b = Some ?r"
    by (rule validate_payload)
  obtain out where c: "fst (create_user ?hash ?r (create_all None)) = Inr out"
    by (simp add: endpoint_defs create_all_def)
  obtain resp where e: "fst (post_auth ?hash ?b (create_all None)) = Inr resp"
    by (simp add: endpoint_defs v create_all_def)
  from handler_returns_nothing
         [where hash = ?hash and r = ?r and s = "create_all None" and v = out and b = ?b
            and resp = resp]
       v c e
  have "out = None" and "status_code resp = 201" and "content resp = None"
    by simp_all
  with v c e show ?thesis by simp
qed

section \<open>No check on what the strings contain\<close>

text \<open>
  Claim C9. A body whose six fields are strings is accepted whatever the strings are,
  the empty string included. The handler hashes the password as submitted; when the
  hashing returns, it hands the record built from the six strings to the session; and
  when no stored row has the username or the email, the answer is 201 and the row is
  in the table.
\<close>

theorem any_strings_accepted:
  "validate (payload u e f l p r) =
     Some \<lparr>req_username = u, req_email = e, req_first_name = f,
           req_last_name = l, req_password = p, req_role = r\<rparr> \<and>
   Hashed p \<in> set (trace (snd (post_auth hash (payload u e f l p r) s))) \<and>
   (hash p = Some h \<longrightarrow>
      Added \<lparr>email = e, username = u, first_name = f, last_name = l, role = r,
             hashed_password = h, is_active = True\<rparr>
        \<in> set (trace (snd (post_auth hash (payload u e f l p r) s)))) \<and>
   (hash p = Some h \<longrightarrow>
    \<not> violates (users_table s)
        \<lparr>email = e, username = u, first_name = f, last_name = l, role = r,
          hashed_password = h, is_active = True\<rparr> \<longrightarrow>
      fst (post_auth hash (payload u e f l p r) s) =
        Inr \<lparr>status_code = HTTP_201_CREATED, content = None\<rparr> \<and>
      users_table (snd (post_auth hash (payload u e f l p r) s)) =
        users_table s @ [\<lparr>email = e, username = u, first_name = f, last_name = l, role = r,
                           hashed_password = h, is_active = True\<rparr>])"
proof -
  let ?q = "\<lparr>req_username = u, req_email = e, req_first_name = f,
             req_last_name = l, req_password = p, req_role = r\<rparr>"
  have v: "validate (payload u e f l p r) = Some ?q"
    by (rule validate_payload)
  have m: "create_user_model ?q h = \<lparr>email = e, username = u, first_name = f, last_name = l,
             role = r, hashed_password = h, is_active = True\<rparr>" for h
    by (simp add: create_user_model_def)
  have hashed: "Hashed p \<in> set (trace (snd (post_auth hash (payload u e f l p r) s)))"
  proof (cases "hash p")
    case None
    then show ?thesis by (simp add: post_auth_hash_raises [OF v])
  next
    case (Some h')
    then show ?thesis
      by (cases "violates (users_table s) (create_user_model ?q h')")
        (simp_all add: post_auth_conflict [OF v] post_auth_created [OF v])
  qed
  have added: "Added (create_user_model ?q h)
        \<in> set (trace (snd (post_auth hash (payload u e f l p r) s)))" if "hash p = Some h"
    using that
    by (cases "violates (users_table s) (create_user_model ?q h)")
      (simp_all add: post_auth_conflict [OF v] post_auth_created [OF v])
  have created: "fst (post_auth hash (payload u e f l p r) s) =
        Inr \<lparr>status_code = HTTP_201_CREATED, content = None\<rparr> \<and>
      users_table (snd (post_auth hash (payload u e f l p r) s)) =
        users_table s @ [create_user_model ?q h]"
    if "hash p = Some h" "\<not> violates (users_table s) (create_user_model ?q h)"
    using that by (simp add: post_auth_created [OF v])
  from v hashed added created show ?thesis
    unfolding m by blast
qed

theorem any_strings_accepted_witness:
  "validate (payload '''' ''a@x.com'' ''A'' ''L'' '''' ''user'') =
     Some \<lparr>req_username = '''', req_email = ''a@x.com'', req_first_name = ''A'',
           req_last_name = ''L'', req_password = '''', req_role = ''user''\<rparr> \<and>
   fst (post_auth (\<lambda>p. Some (''$2b$12$'' @ p)) (payload '''' ''a@x.com'' ''A'' ''L'' '''' ''user'')
          (create_all None)) =
     Inr \<lparr>status_code = HTTP_201_CREATED, content = None\<rparr> \<and>
   users_table (snd (post_auth (\<lambda>p. Some (''$2b$12$'' @ p))
          (payload '''' ''a@x.com'' ''A'' ''L'' '''' ''user'') (create_all None))) =
     [\<lparr>email = ''a@x.com'', username = '''', first_name = ''A'', last_name = ''L'',
       role = ''user'', hashed_password = ''$2b$12$'', is_active = True\<rparr>]"
  using any_strings_accepted
          [where u = "''''" and e = "''a@x.com''" and f = "''A''" and l = "''L''" and p = "''''"
             and r = "''user''" and hash = "\<lambda>p. Some (''$2b$12$'' @ p)" and h = "''$2b$12$''"
             and s = "create_all None"]
  by (simp add: create_all_def)

section \<open>Nothing is written on an error\<close>

text \<open>
  Claim C10. The release writes nothing: after \<open>get_db\<close> the table is what the code
  running inside it left, and nothing is pending. A record that was handed to the
  session and never committed is dropped at the release. When the hashing raises, the
  request ends with that exception; and whenever a request ends with an exception, the
  table is the table of before.
\<close>

theorem release_never_commits:
  "users_table (close s) = users_table s \<and>
   users_table (snd (get_db during s)) = users_table (snd (during (SessionLocal s))) \<and>
   pending (snd (get_db during s)) = [] \<and>
   users_table (snd (get_db (\<lambda>db. (Inl e, add u db)) s)) = users_table s \<and>
   (validate b = Some r \<longrightarrow> hash (req_password r) = None \<longrightarrow>
      fst (post_auth hash b s) = Inl HashingError) \<and>
   (fst (post_auth hash b s) = Inl e \<longrightarrow>
      users_table (snd (post_auth hash b s)) = users_table s)"
proof (intro conjI impI)
  show "users_table (close s) = users_table s"
    by (simp add: close_def)
  show "users_table (snd (get_db during s)) = users_table (snd (during (SessionLocal s)))"
    by (simp add: get_db_def close_def split: prod.split)
  show "pending (snd (get_db during s)) = []"
    by (simp add: get_db_def close_def split: prod.split)
  show "users_table (snd (get_db (\<lambda>db. (Inl e, add u db)) s)) = users_table s"
    by (simp add: get_db_def close_def add_def SessionLocal_def)
next
  assume "validate b = Some r" and "hash (req_password r) = None"
  then show "fst (post_auth hash b s) = Inl HashingError"
    by (simp add: post_auth_hash_raises)
next
  assume raised: "fst (post_auth hash b s) = Inl e"
  show "users_table (snd (post_auth hash b s)) = users_table s"
  proof (cases rule: post_auth_cases [where b = b and hash = hash and s = s])
    case invalid
    then show ?thesis by (simp add: post_auth_invalid)
  next
    case (hash_raises r')
    then show ?thesis by (simp add: post_auth_hash_raises)
  next
    case (conflict r' h)
    then show ?thesis by (simp add: post_auth_conflict)
  next
    case (created r' h)
    with raised show ?thesis by (simp add: post_auth_created)
  qed
qed

theorem release_never_commits_witness:
  "validate (payload ''alice'' ''a@x.com'' ''A'' ''L'' ''secret123'' ''user'') =
     Some \<lparr>req_username = ''alice'', req_email = ''a@x.com'', req_first_name = ''A'',
            req_last_name = ''L'', req_password = ''secret123'', req_role = ''user''\<rparr> \<and>
   fst (post_auth (\<lambda>p. None) (payload ''alice'' ''a@x.com'' ''A'' ''L'' ''secret123'' ''user'')
          (create_all None)) = Inl HashingError \<and>
   users_table (snd (post_auth (\<lambda>p. None)
          (payload ''alice'' ''a@x.com'' ''A'' ''L'' ''secret123'' ''user'') (create_all None))) =
     users_table (create_all None)"
proof -
  let ?b = "payload ''alice'' ''a@x.com'' ''A'' ''L'' ''secret123'' ''user''"
  let ?r = "\<lparr>req_username = ''alice'', req_email = ''a@x.com'', req_first_name = ''A'',
             req_last_name = ''L'', req_password = ''secret123'', req_role = ''user''\<rparr>"
  have v: "validate ?b = Some ?r"
    by (rule validate_payload)
  from release_never_commits
         [where hash = "\<lambda>p. None" and b = ?b and r = ?r and s = "create_all None"
            and e = HashingError and u = "create_user_model ?r []"
            and during = "\<lambda>db. (True, db)"]
       v
  show ?thesis by blast
qed

end
